theory Spec2Isabelle
  imports Complex_Main
begin

section \<open>Room relay server: data model\<close>

text \<open>
  \<^verbatim>\<open>src/server.js\<close> holds two versions of the server. Lines 1-283 are the earlier one
  (rooms without \<^verbatim>\<open>expiresAt\<close>, messages without ids, \<^verbatim>\<open>io.emit\<close> on deletion); lines
  283-581 are the later one. The later version keeps the source's names here; what is
  modelled of the earlier version carries the suffix \<open>_v1\<close>.

  Identifiers (room ids, user ids, socket ids) are JavaScript strings. A JavaScript
  \<^verbatim>\<open>Set\<close> iterates in insertion order and the handlers depend on that order, so a
  \<^verbatim>\<open>Set\<close> is a list without duplicates, in insertion order. The two \<^verbatim>\<open>Map\<close>s are never
  iterated, only read and written by key, so they are partial functions.
\<close>

type_synonym roomId = string
type_synonym userId = string
type_synonym socketId = string

definition Set_add :: "'a \<Rightarrow> 'a list \<Rightarrow> 'a list" where
  "Set_add x xs = (if x \<in> set xs then xs else xs @ [x])"

definition Set_delete :: "'a \<Rightarrow> 'a list \<Rightarrow> 'a list" where
  "Set_delete x xs = filter (\<lambda>y. y \<noteq> x) xs"

text \<open>\<^verbatim>\<open>new Set(iterable)\<close>: the elements are added one by one, first occurrence first.\<close>

definition new_Set :: "'a list \<Rightarrow> 'a list" where
  "new_Set xs = foldl (\<lambda>acc x. Set_add x acc) [] xs"

text \<open>
  The message of the later version, \<^verbatim>\<open>{ id, userId, message, timestamp }\<close>
  (lines 514-519).
\<close>

record message =
  id_m :: string
  userId_m :: userId
  message_m :: string
  timestamp_m :: int

text \<open>
  The earlier version's message, \<^verbatim>\<open>{ userId, message, timestamp }\<close> (lines 210-214),
  and its room object (lines 28-34), whose \<^verbatim>\<open>timer\<close> starts as \<^verbatim>\<open>null\<close>.
\<close>

record message_v1 =
  userId_m1 :: userId
  message_m1 :: string
  timestamp_m1 :: int

record room_v1 =
  id_r1 :: roomId
  users_v1 :: "userId list"
  messages_v1 :: "message_v1 list"
  createdAt_v1 :: int
  timer_v1 :: "nat option"

text \<open>
  The room object of \<^verbatim>\<open>createRoom\<close> (lines 316-323). \<^verbatim>\<open>timer\<close> is the handle that
  \<^verbatim>\<open>setTimeout\<close> returned; times are milliseconds, as \<^verbatim>\<open>Date.now()\<close> gives them.
\<close>

record room =
  id_r :: roomId
  users :: "userId list"
  messages :: "message list"
  createdAt :: int
  expiresAt :: int
  timer :: nat

text \<open>
  A pending Node.js timeout. Every callback in the source is
  \<^verbatim>\<open>() => deleteRoom(roomId)\<close>, so the callback is the room id it closes over.
  \<^verbatim>\<open>_idleStart\<close> is the event loop's clock at the moment the timer was armed
  (milliseconds since the loop started, not \<^verbatim>\<open>Date.now()\<close>), \<^verbatim>\<open>_idleTimeout\<close> the delay.
\<close>

record timeout =
  callback_roomId :: roomId
  idleStart :: int
  idleTimeout :: int

text \<open>
  The three error strings of the source, in source order of first use:
  "a room with this ID already exists" (line 401), "room not found" (lines 419, 500),
  "you are not a member of the room" (line 506). The source writes them in Russian.
\<close>

datatype error_text = AlreadyExists | NotFound | NotMember

datatype event =
  Error error_text
  | Room_created roomId nat
  | Room_joined roomId nat
  | Room_deleted roomId
  | New_message string roomId userId string
  | Room_expiration int
  | Room_messages roomId "message list"
  | User_rooms "(roomId \<times> nat) list"
  | New_message_v1 roomId userId string
  | Room_messages_v1 "message_v1 list"

text \<open>
  Where an event is addressed: \<^verbatim>\<open>socket.emit\<close> (one socket), \<^verbatim>\<open>io.to(name).emit\<close>
  (a socket.io channel) or \<^verbatim>\<open>io.emit\<close> (every connected socket).
\<close>

datatype target = To_socket socketId | To_channel string | To_all

text \<open>
  The server's state: the two module-level maps, the pending timeouts with the next free
  handle, and what socket.io holds: the connected sockets, the channels each socket
  joined with \<^verbatim>\<open>socket.join\<close>, the \<^verbatim>\<open>socket.userId\<close> attribute, and the events emitted
  so far, oldest first. The room type is a parameter so that both versions share it.
\<close>

record 'r state =
  rooms :: "roomId \<rightharpoonup> 'r"
  userRooms :: "userId \<rightharpoonup> roomId list"
  timers :: "nat \<rightharpoonup> timeout"
  next_timer :: nat
  sockets :: "socketId list"
  joined :: "socketId \<Rightarrow> string list"
  socket_userId :: "socketId \<rightharpoonup> userId"
  outbox :: "(target \<times> event) list"

definition init_state :: "'r state" where
  "init_state = \<lparr> rooms = Map.empty, userRooms = Map.empty, timers = Map.empty,
     next_timer = 0, sockets = [], joined = (\<lambda>_. []), socket_userId = Map.empty,
     outbox = [] \<rparr>"

text \<open>
  What a handler reads from its environment while it runs: the successive results of
  \<^verbatim>\<open>Date.now()\<close> and \<^verbatim>\<open>new Date()\<close> (the \<open>k\<close>-th read of the handler, from 0), the event
  loop's clock that \<^verbatim>\<open>setTimeout\<close> stamps into \<^verbatim>\<open>_idleStart\<close>, and what the random
  draws evaluate to. \<^verbatim>\<open>Math.random()\<close> returns a double and the source uses it only
  inside two expressions, whose values are read as they are: the \<open>k\<close>-th
  \<^verbatim>\<open>Math.floor(Math.random() * n)\<close> of \<^verbatim>\<open>generateRoomId\<close> (an integer from 0 to
  \<open>n - 1\<close>; the product is rounded as a double before the floor), and the string that
  \<^verbatim>\<open>Math.random().toString(36).substr(2, 9)\<close> evaluates to (line 511).
\<close>

record env =
  Date_now :: "nat \<Rightarrow> int"
  loop_now :: int
  Math_floor_random :: "nat \<Rightarrow> int"
  random36 :: string

definition ROOM_EXPIRATION_MINUTES :: int where
  "ROOM_EXPIRATION_MINUTES = 5"

section \<open>socket.io and timer primitives\<close>

definition emit :: "target \<Rightarrow> event \<Rightarrow> 'r state \<Rightarrow> 'r state" where
  "emit t ev s = s\<lparr> outbox := outbox s @ [(t, ev)] \<rparr>"

definition socket_join :: "socketId \<Rightarrow> string \<Rightarrow> 'r state \<Rightarrow> 'r state" where
  "socket_join sock name s = s\<lparr> joined := (joined s)(sock := Set_add name (joined s sock)) \<rparr>"

text \<open>
  socket.io's routing: \<^verbatim>\<open>socket.emit\<close> reaches that socket, \<^verbatim>\<open>io.emit\<close> every connected
  socket, \<^verbatim>\<open>io.to(name).emit\<close> the connected sockets in channel \<open>name\<close>; a socket is in
  the channel named by its own id and in those it joined.
\<close>

definition recipients :: "'r state \<Rightarrow> target \<Rightarrow> socketId list" where
  "recipients s t =
     (case t of
        To_socket sock \<Rightarrow> [sock]
      | To_all \<Rightarrow> sockets s
      | To_channel name \<Rightarrow> filter (\<lambda>sock. name = sock \<or> name \<in> set (joined s sock)) (sockets s))"

definition setTimeout :: "int \<Rightarrow> roomId \<Rightarrow> int \<Rightarrow> 'r state \<Rightarrow> nat \<times> 'r state" where
  "setTimeout lnow roomId ms s =
     (next_timer s,
      s\<lparr> timers := (timers s)(next_timer s \<mapsto>
            \<lparr> callback_roomId = roomId, idleStart = lnow, idleTimeout = ms \<rparr>),
         next_timer := Suc (next_timer s) \<rparr>)"

definition clearTimeout :: "nat \<Rightarrow> 'r state \<Rightarrow> 'r state" where
  "clearTimeout h s = s\<lparr> timers := (timers s)(h := None) \<rparr>"

section \<open>Later version (lines 283-581)\<close>

subsection \<open>Room functions\<close>

text \<open>The body of the \<^verbatim>\<open>userIds.forEach\<close> in \<^verbatim>\<open>createRoom\<close> (lines 327-332).\<close>

definition add_userRoom :: "roomId \<Rightarrow> 'r state \<Rightarrow> userId \<Rightarrow> 'r state" where
  "add_userRoom roomId s userId =
     s\<lparr> userRooms := (userRooms s)(userId \<mapsto>
          Set_add roomId (case userRooms s userId of None \<Rightarrow> [] | Some rs \<Rightarrow> rs)) \<rparr>"

text \<open>
  \<^verbatim>\<open>createRoom\<close> (lines 313-335). \<open>now0\<close> is the \<^verbatim>\<open>Date.now()\<close> of line 314, \<open>now1\<close> the
  one of line 320. There is no check that \<open>roomId\<close> is free: \<^verbatim>\<open>rooms.set\<close> replaces
  whatever was stored under it.
\<close>

definition createRoom ::
  "int \<Rightarrow> int \<Rightarrow> int \<Rightarrow> roomId \<Rightarrow> userId list \<Rightarrow> room state \<Rightarrow> room \<times> room state" where
  "createRoom now0 now1 lnow roomId userIds s =
     (let expires = now0 + ROOM_EXPIRATION_MINUTES * 60 * 1000;
          (h, s1) = setTimeout lnow roomId (ROOM_EXPIRATION_MINUTES * 60 * 1000) s;
          room = \<lparr> id_r = roomId, users = new_Set userIds, messages = [],
                   createdAt = now1, expiresAt = expires, timer = h \<rparr>;
          s2 = s1\<lparr> rooms := (rooms s1)(roomId \<mapsto> room) \<rparr>
      in (room, foldl (add_userRoom roomId) s2 userIds))"

text \<open>The body of the \<^verbatim>\<open>room.users.forEach\<close> in \<^verbatim>\<open>deleteRoom\<close> (lines 346-353).\<close>

definition remove_userRoom :: "roomId \<Rightarrow> 'r state \<Rightarrow> userId \<Rightarrow> 'r state" where
  "remove_userRoom roomId s userId =
     (case userRooms s userId of
        None \<Rightarrow> s
      | Some rs \<Rightarrow>
          (if Set_delete roomId rs = []
           then s\<lparr> userRooms := (userRooms s)(userId := None) \<rparr>
           else s\<lparr> userRooms := (userRooms s)(userId \<mapsto> Set_delete roomId rs) \<rparr>))"

text \<open>\<^verbatim>\<open>deleteRoom\<close> (lines 337-359): the notice goes to the room's channel.\<close>

definition deleteRoom :: "roomId \<Rightarrow> room state \<Rightarrow> room state" where
  "deleteRoom roomId s =
     (case rooms s roomId of
        None \<Rightarrow> s
      | Some room \<Rightarrow>
          (let s1 = emit (To_channel roomId) (Room_deleted roomId) s;
               s2 = foldl (remove_userRoom roomId) s1 (users room);
               s3 = clearTimeout (timer room) s2
           in s3\<lparr> rooms := (rooms s3)(roomId := None) \<rparr>))"

text \<open>\<^verbatim>\<open>resetRoomTimer\<close> (lines 361-371); \<open>now\<close> is the \<^verbatim>\<open>Date.now()\<close> of line 368.\<close>

definition resetRoomTimer :: "int \<Rightarrow> int \<Rightarrow> roomId \<Rightarrow> room state \<Rightarrow> room state" where
  "resetRoomTimer now lnow roomId s =
     (case rooms s roomId of
        None \<Rightarrow> s
      | Some room \<Rightarrow>
          (let s1 = clearTimeout (timer room) s;
               (h, s2) = setTimeout lnow roomId (ROOM_EXPIRATION_MINUTES * 60 * 1000) s1
           in s2\<lparr> rooms := (rooms s2)(roomId \<mapsto>
                 room\<lparr> expiresAt := now + ROOM_EXPIRATION_MINUTES * 60 * 1000, timer := h \<rparr>) \<rparr>))"

text \<open>
  JavaScript's conversion of an integer to a string (decimal digits, a leading minus
  sign), as in \<^verbatim>\<open>result += Math.floor(...)\<close> and \<^verbatim>\<open>Date.now() + '-'\<close>.
\<close>

fun string_of_nat :: "nat \<Rightarrow> string" where
  "string_of_nat n =
     (if n < 10 then [''0123456789'' ! n]
      else string_of_nat (n div 10) @ [''0123456789'' ! (n mod 10)])"

declare string_of_nat.simps [simp del]

definition Number_toString :: "int \<Rightarrow> string" where
  "Number_toString i = (if i < 0 then ''-'' @ string_of_nat (nat (- i)) else string_of_nat (nat i))"

text \<open>\<^verbatim>\<open>String.prototype.charAt\<close>: the empty string outside the string.\<close>

definition charAt :: "string \<Rightarrow> int \<Rightarrow> string" where
  "charAt str i = (if 0 \<le> i \<and> i < int (length str) then [str ! nat i] else [])"

text \<open>
  \<^verbatim>\<open>generateRoomId\<close> (lines 373-386): two letters, then two digits. The four
  \<^verbatim>\<open>Math.floor(Math.random() * n)\<close> are the environment's draws 0 to 3, with
  \<open>n = letters.length\<close> for the first two and \<open>n = 10\<close> for the last two.
\<close>

definition generateRoomId :: "env \<Rightarrow> roomId" where
  "generateRoomId e =
     (let letters = ''ABCDEFGHIJKLMNOPQRSTUVWXYZ'' in
        charAt letters (Math_floor_random e 0)
      @ charAt letters (Math_floor_random e 1)
      @ Number_toString (Math_floor_random e 2)
      @ Number_toString (Math_floor_random e 3))"

subsection \<open>Socket handlers\<close>

text \<open>
  An exception that leaves a handler. The only one the handlers can raise on string
  arguments is the \<^verbatim>\<open>TypeError\<close> of \<^verbatim>\<open>room.users\<close> on \<^verbatim>\<open>undefined\<close> in
  \<^verbatim>\<open>sendUserRooms\<close>.
\<close>

datatype exn = TypeError

text \<open>
  The \<^verbatim>\<open>map\<close> of \<^verbatim>\<open>sendUserRooms\<close> (lines 563-569): \<^verbatim>\<open>rooms.get(roomId)\<close> is
  \<^verbatim>\<open>undefined\<close> for an id that is not live, and \<^verbatim>\<open>room.users\<close> then throws.
\<close>

fun roomsData :: "room state \<Rightarrow> roomId list \<Rightarrow> (roomId \<times> nat) list option" where
  "roomsData s [] = Some []"
| "roomsData s (roomId # rest) =
     (case rooms s roomId of
        None \<Rightarrow> None
      | Some room \<Rightarrow>
          (case roomsData s rest of
             None \<Rightarrow> None
           | Some ds \<Rightarrow> Some ((roomId, length (users room)) # ds)))"

definition sendUserRooms :: "socketId \<Rightarrow> userId \<Rightarrow> room state \<Rightarrow> exn + room state" where
  "sendUserRooms sock userId s =
     (case userRooms s userId of
        Some rs \<Rightarrow>
          (case roomsData s rs of
             None \<Rightarrow> Inl TypeError
           | Some ds \<Rightarrow> Inr (emit (To_socket sock) (User_rooms ds) s))
      | None \<Rightarrow> Inr (emit (To_socket sock) (User_rooms []) s))"

text \<open>\<^verbatim>\<open>io.on('connection', ...)\<close> (line 389): socket.io adds the socket.\<close>

definition connection :: "socketId \<Rightarrow> 'r state \<Rightarrow> 'r state" where
  "connection sock s = s\<lparr> sockets := Set_add sock (sockets s) \<rparr>"

text \<open>\<^verbatim>\<open>register\<close> (lines 393-396).\<close>

definition register :: "socketId \<Rightarrow> userId \<Rightarrow> room state \<Rightarrow> exn + room state" where
  "register sock userId s =
     sendUserRooms sock userId (s\<lparr> socket_userId := (socket_userId s)(sock \<mapsto> userId) \<rparr>)"

text \<open>\<^verbatim>\<open>create_room\<close> (lines 399-414).\<close>

definition create_room ::
  "env \<Rightarrow> socketId \<Rightarrow> roomId \<Rightarrow> userId list \<Rightarrow> room state \<Rightarrow> room state" where
  "create_room e sock roomId userIds s =
     (if rooms s roomId \<noteq> None then emit (To_socket sock) (Error AlreadyExists) s
      else
        (let (room, s1) = createRoom (Date_now e 0) (Date_now e 1) (loop_now e) roomId userIds s
         in foldl (\<lambda>s' userId.
                     emit (To_channel userId) (Room_created roomId (length (users room))) s')
              s1 userIds))"

text \<open>
  The expression
  \<^verbatim>\<open>Math.max(0, Math.ceil((room.expiresAt - Date.now()) / 60000))\<close>
  of lines 445-447, 533-535 and 553-555. Both operands are integers far below
  \<open>2^53\<close>, where the quotient's rounding cannot cross an integer, so the division is
  the exact one.
\<close>

definition minutesLeft :: "int \<Rightarrow> int \<Rightarrow> int" where
  "minutesLeft expires now = max 0 \<lceil>real_of_int (expires - now) / 60000\<rceil>"

text \<open>
  \<^verbatim>\<open>join_room\<close> (lines 417-452). \<^verbatim>\<open>room\<close> is a reference to the object in the map,
  so after \<^verbatim>\<open>resetRoomTimer\<close> the handler sees the new \<^verbatim>\<open>expiresAt\<close>: the model reads
  the room again from the state, where the guard of line 418 has shown it to be.
\<close>

definition join_room ::
  "env \<Rightarrow> socketId \<Rightarrow> roomId \<Rightarrow> userId \<Rightarrow> room state \<Rightarrow> exn + room state" where
  "join_room e sock roomId userId s =
     (case rooms s roomId of
        None \<Rightarrow> Inr (emit (To_socket sock) (Error NotFound) s)
      | Some room \<Rightarrow>
          (let s1 = (if userId \<notin> set (users room)
                     then add_userRoom roomId
                            (s\<lparr> rooms := (rooms s)(roomId \<mapsto>
                                  room\<lparr> users := Set_add userId (users room) \<rparr>) \<rparr>) userId
                     else s);
               s2 = socket_join sock roomId s1;
               s3 = resetRoomTimer (Date_now e 0) (loop_now e) roomId s2;
               room' = the (rooms s3 roomId);
               s4 = emit (To_socket sock) (Room_joined roomId (length (users room'))) s3;
               s5 = emit (To_socket sock)
                      (Room_expiration (minutesLeft (expiresAt room') (Date_now e 1))) s4
           in sendUserRooms sock userId s5))"

text \<open>The \<^verbatim>\<open>for\<close> loop of \<^verbatim>\<open>join_by_user\<close> (lines 464-471), with its \<^verbatim>\<open>break\<close>.\<close>

fun find_existingRoom :: "room state \<Rightarrow> userId \<Rightarrow> userId \<Rightarrow> roomId list \<Rightarrow> room option" where
  "find_existingRoom s currentUserId userId [] = None"
| "find_existingRoom s currentUserId userId (roomId # rest) =
     (case rooms s roomId of
        Some room \<Rightarrow>
          (if length (users room) = 2 \<and> currentUserId \<in> set (users room)
              \<and> userId \<in> set (users room)
           then Some room
           else find_existingRoom s currentUserId userId rest)
      | None \<Rightarrow> find_existingRoom s currentUserId userId rest)"

text \<open>Lines 456-472: the search runs only when both users have an index entry.\<close>

definition existingRoom :: "room state \<Rightarrow> userId \<Rightarrow> userId \<Rightarrow> room option" where
  "existingRoom s currentUserId userId =
     (case (userRooms s currentUserId, userRooms s userId) of
        (Some mine, Some theirs) \<Rightarrow>
          find_existingRoom s currentUserId userId
            (filter (\<lambda>roomId. roomId \<in> set theirs) mine)
      | _ \<Rightarrow> None)"

text \<open>
  \<^verbatim>\<open>join_by_user\<close> (lines 455-495). The new id goes to \<^verbatim>\<open>createRoom\<close> as it was
  generated; \<^verbatim>\<open>userCount: 2\<close> is a literal in the source.
\<close>

definition join_by_user ::
  "env \<Rightarrow> socketId \<Rightarrow> userId \<Rightarrow> userId \<Rightarrow> room state \<Rightarrow> room state" where
  "join_by_user e sock userId currentUserId s =
     (case existingRoom s currentUserId userId of
        Some room \<Rightarrow> emit (To_socket sock) (Room_joined (id_r room) (length (users room))) s
      | None \<Rightarrow>
          (let roomId = generateRoomId e;
               (room, s1) = createRoom (Date_now e 0) (Date_now e 1) (loop_now e) roomId
                              [currentUserId, userId] s;
               s2 = emit (To_socket sock) (Room_created roomId 2) s1
           in emit (To_channel userId) (Room_created roomId 2) s2))"

text \<open>
  \<^verbatim>\<open>send_message\<close> (lines 498-537). The id is the \<^verbatim>\<open>Date.now()\<close> of line 511, a dash
  and the random suffix; nothing compares it with the ids already stored.
\<close>

definition send_message ::
  "env \<Rightarrow> socketId \<Rightarrow> roomId \<Rightarrow> userId \<Rightarrow> string \<Rightarrow> room state \<Rightarrow> room state" where
  "send_message e sock roomId userId message s =
     (case rooms s roomId of
        None \<Rightarrow> emit (To_socket sock) (Error NotFound) s
      | Some room \<Rightarrow>
          (if userId \<notin> set (users room) then emit (To_socket sock) (Error NotMember) s
           else
             (let messageId = Number_toString (Date_now e 0) @ ''-'' @ random36 e;
                  s1 = s\<lparr> rooms := (rooms s)(roomId \<mapsto>
                         room\<lparr> messages := messages room @
                           [\<lparr> id_m = messageId, userId_m = userId, message_m = message,
                              timestamp_m = Date_now e 1 \<rparr>] \<rparr>) \<rparr>;
                  s2 = resetRoomTimer (Date_now e 2) (loop_now e) roomId s1;
                  s3 = emit (To_channel roomId) (New_message messageId roomId userId message) s2;
                  room' = the (rooms s3 roomId)
              in emit (To_channel roomId)
                   (Room_expiration (minutesLeft (expiresAt room') (Date_now e 3))) s3)))"

text \<open>\<^verbatim>\<open>get_messages\<close> (lines 540-547): no \<^verbatim>\<open>else\<close> branch.\<close>

definition get_messages :: "socketId \<Rightarrow> roomId \<Rightarrow> room state \<Rightarrow> room state" where
  "get_messages sock roomId s =
     (case rooms s roomId of
        Some room \<Rightarrow> emit (To_socket sock) (Room_messages roomId (messages room)) s
      | None \<Rightarrow> s)"

text \<open>\<^verbatim>\<open>get_room_expiration\<close> (lines 550-558): no \<^verbatim>\<open>else\<close> branch.\<close>

definition get_room_expiration :: "env \<Rightarrow> socketId \<Rightarrow> roomId \<Rightarrow> room state \<Rightarrow> room state" where
  "get_room_expiration e sock roomId s =
     (case rooms s roomId of
        Some room \<Rightarrow>
          emit (To_socket sock) (Room_expiration (minutesLeft (expiresAt room) (Date_now e 0))) s
      | None \<Rightarrow> s)"

text \<open>
  A pending timeout fires once the loop's clock has reached
  \<^verbatim>\<open>_idleStart + _idleTimeout\<close>; Node removes it from the pending ones and runs its
  callback, \<^verbatim>\<open>deleteRoom(roomId)\<close>.
\<close>

definition fire_timer :: "int \<Rightarrow> nat \<Rightarrow> room state \<Rightarrow> room state" where
  "fire_timer lnow h s =
     (case timers s h of
        None \<Rightarrow> s
      | Some t \<Rightarrow>
          (if idleStart t + idleTimeout t \<le> lnow
           then deleteRoom (callback_roomId t) (clearTimeout h s)
           else s))"

section \<open>Earlier version (lines 1-283)\<close>

text \<open>
  The functions of the earlier version that differ from the later one in what they emit
  or compute: the room functions, \<^verbatim>\<open>create_room\<close>, \<^verbatim>\<open>join_room\<close> and
  \<^verbatim>\<open>send_message\<close>.
\<close>

text \<open>\<^verbatim>\<open>createRoom\<close> (lines 27-52): the timer is armed after the index is written.\<close>

definition createRoom_v1 ::
  "int \<Rightarrow> int \<Rightarrow> roomId \<Rightarrow> userId list \<Rightarrow> room_v1 state \<Rightarrow> room_v1 \<times> room_v1 state" where
  "createRoom_v1 now lnow roomId userIds s =
     (let room = \<lparr> id_r1 = roomId, users_v1 = new_Set userIds, messages_v1 = [],
                   createdAt_v1 = now, timer_v1 = None \<rparr>;
          s1 = s\<lparr> rooms := (rooms s)(roomId \<mapsto> room) \<rparr>;
          s2 = foldl (add_userRoom roomId) s1 userIds;
          (h, s3) = setTimeout lnow roomId (ROOM_EXPIRATION_MINUTES * 60 * 1000) s2;
          room' = room\<lparr> timer_v1 := Some h \<rparr>
      in (room', s3\<lparr> rooms := (rooms s3)(roomId \<mapsto> room') \<rparr>))"

text \<open>\<^verbatim>\<open>deleteRoom\<close> (lines 55-75): \<^verbatim>\<open>io.emit\<close>, after the room is gone.\<close>

definition deleteRoom_v1 :: "roomId \<Rightarrow> room_v1 state \<Rightarrow> room_v1 state" where
  "deleteRoom_v1 roomId s =
     (case rooms s roomId of
        None \<Rightarrow> s
      | Some room \<Rightarrow>
          (let s1 = foldl (remove_userRoom roomId) s (users_v1 room);
               s2 = (case timer_v1 room of None \<Rightarrow> s1 | Some h \<Rightarrow> clearTimeout h s1);
               s3 = s2\<lparr> rooms := (rooms s2)(roomId := None) \<rparr>
           in emit To_all (Room_deleted roomId) s3))"

text \<open>\<^verbatim>\<open>resetRoomTimer\<close> (lines 78-87).\<close>

definition resetRoomTimer_v1 :: "int \<Rightarrow> roomId \<Rightarrow> room_v1 state \<Rightarrow> room_v1 state" where
  "resetRoomTimer_v1 lnow roomId s =
     (case rooms s roomId of
        None \<Rightarrow> s
      | Some room \<Rightarrow>
          (let s1 = (case timer_v1 room of None \<Rightarrow> s | Some h \<Rightarrow> clearTimeout h s);
               (h, s2) = setTimeout lnow roomId (ROOM_EXPIRATION_MINUTES * 60 * 1000) s1
           in s2\<lparr> rooms := (rooms s2)(roomId \<mapsto> room\<lparr> timer_v1 := Some h \<rparr>) \<rparr>))"

text \<open>\<^verbatim>\<open>sendUserRooms\<close> (lines 241-255), with the \<^verbatim>\<open>map\<close> of lines 243-249.\<close>

fun roomsData_v1 :: "room_v1 state \<Rightarrow> roomId list \<Rightarrow> (roomId \<times> nat) list option" where
  "roomsData_v1 s [] = Some []"
| "roomsData_v1 s (roomId # rest) =
     (case rooms s roomId of
        None \<Rightarrow> None
      | Some room \<Rightarrow>
          (case roomsData_v1 s rest of
             None \<Rightarrow> None
           | Some ds \<Rightarrow> Some ((roomId, length (users_v1 room)) # ds)))"

definition sendUserRooms_v1 ::
  "socketId \<Rightarrow> userId \<Rightarrow> room_v1 state \<Rightarrow> exn + room_v1 state" where
  "sendUserRooms_v1 sock userId s =
     (case userRooms s userId of
        Some rs \<Rightarrow>
          (case roomsData_v1 s rs of
             None \<Rightarrow> Inl TypeError
           | Some ds \<Rightarrow> Inr (emit (To_socket sock) (User_rooms ds) s))
      | None \<Rightarrow> Inr (emit (To_socket sock) (User_rooms []) s))"

text \<open>\<^verbatim>\<open>create_room\<close> (lines 100-115).\<close>

definition create_room_v1 ::
  "env \<Rightarrow> socketId \<Rightarrow> roomId \<Rightarrow> userId list \<Rightarrow> room_v1 state \<Rightarrow> room_v1 state" where
  "create_room_v1 e sock roomId userIds s =
     (if rooms s roomId \<noteq> None then emit (To_socket sock) (Error AlreadyExists) s
      else
        (let (room, s1) = createRoom_v1 (Date_now e 0) (loop_now e) roomId userIds s
         in foldl (\<lambda>s' userId.
                     emit (To_channel userId) (Room_created roomId (length (users_v1 room))) s')
              s1 userIds))"

text \<open>
  The expression
  \<^verbatim>\<open>Math.ceil((room.timer._idleStart + room.timer._idleTimeout - Date.now()) / 60000)\<close>
  of lines 144-146 and 227-229: the timer's fields, on the event loop's clock, less
  \<^verbatim>\<open>Date.now()\<close>, with no \<^verbatim>\<open>Math.max\<close>.
\<close>

definition minutesLeft_v1 :: "timeout \<Rightarrow> int \<Rightarrow> int" where
  "minutesLeft_v1 t now = \<lceil>real_of_int (idleStart t + idleTimeout t - now) / 60000\<rceil>"

text \<open>
  \<^verbatim>\<open>join_room\<close> (lines 118-150). \<^verbatim>\<open>room.timer\<close> is the timeout that
  \<^verbatim>\<open>resetRoomTimer\<close> has just armed, read back from the state.
\<close>

definition join_room_v1 ::
  "env \<Rightarrow> socketId \<Rightarrow> roomId \<Rightarrow> userId \<Rightarrow> room_v1 state \<Rightarrow> exn + room_v1 state" where
  "join_room_v1 e sock roomId userId s =
     (case rooms s roomId of
        None \<Rightarrow> Inr (emit (To_socket sock) (Error NotFound) s)
      | Some room \<Rightarrow>
          (let s1 = (if userId \<notin> set (users_v1 room)
                     then add_userRoom roomId
                            (s\<lparr> rooms := (rooms s)(roomId \<mapsto>
                                  room\<lparr> users_v1 := Set_add userId (users_v1 room) \<rparr>) \<rparr>) userId
                     else s);
               s2 = socket_join sock roomId s1;
               s3 = resetRoomTimer_v1 (loop_now e) roomId s2;
               room' = the (rooms s3 roomId);
               s4 = emit (To_socket sock) (Room_joined roomId (length (users_v1 room'))) s3;
               t = the (timers s4 (the (timer_v1 room')));
               s5 = emit (To_socket sock) (Room_expiration (minutesLeft_v1 t (Date_now e 0))) s4
           in sendUserRooms_v1 sock userId s5))"

text \<open>\<^verbatim>\<open>send_message\<close> (lines 197-231).\<close>

definition send_message_v1 ::
  "env \<Rightarrow> socketId \<Rightarrow> roomId \<Rightarrow> userId \<Rightarrow> string \<Rightarrow> room_v1 state \<Rightarrow> room_v1 state" where
  "send_message_v1 e sock roomId userId message s =
     (case rooms s roomId of
        None \<Rightarrow> emit (To_socket sock) (Error NotFound) s
      | Some room \<Rightarrow>
          (if userId \<notin> set (users_v1 room) then emit (To_socket sock) (Error NotMember) s
           else
             (let s1 = s\<lparr> rooms := (rooms s)(roomId \<mapsto>
                         room\<lparr> messages_v1 := messages_v1 room @
                           [\<lparr> userId_m1 = userId, message_m1 = message,
                              timestamp_m1 = Date_now e 0 \<rparr>] \<rparr>) \<rparr>;
                  s2 = resetRoomTimer_v1 (loop_now e) roomId s1;
                  s3 = emit (To_channel roomId) (New_message_v1 roomId userId message) s2;
                  room' = the (rooms s3 roomId);
                  t = the (timers s3 (the (timer_v1 room')))
              in emit (To_channel roomId)
                   (Room_expiration (minutesLeft_v1 t (Date_now e 1))) s3)))"

definition fire_timer_v1 :: "int \<Rightarrow> nat \<Rightarrow> room_v1 state \<Rightarrow> room_v1 state" where
  "fire_timer_v1 lnow h s =
     (case timers s h of
        None \<Rightarrow> s
      | Some t \<Rightarrow>
          (if idleStart t + idleTimeout t \<le> lnow
           then deleteRoom_v1 (callback_roomId t) (clearTimeout h s)
           else s))"

section \<open>Reachable states of the later version\<close>



text \<open>
  The invariant of the spec's section 3: a user is a member of a live room exactly when
  the room's id is in the user's index entry.
\<close>

definition membership_consistent :: "room state \<Rightarrow> bool" where
  "membership_consistent s \<longleftrightarrow>
     (\<forall>roomId u. (\<exists>room. rooms s roomId = Some room \<and> u \<in> set (users room))
        \<longleftrightarrow> (\<exists>rs. userRooms s u = Some rs \<and> roomId \<in> set rs))"

text \<open>
  The spec's \<^verbatim>\<open>remainingTTL\<close> (section 4.1), in its words: \<^verbatim>\<open>max(0, expiresAt - now)\<close>.
  The source has no function of that name; it computes \<open>minutesLeft\<close> in place.
\<close>

definition remainingTTL_spec :: "int \<Rightarrow> int \<Rightarrow> int" where
  "remainingTTL_spec expires now = max 0 (expires - now)"

section \<open>Concrete runs\<close>

text \<open>
  An environment for the examples: the clock reads 1700000000000 ms at a handler's
  first \<^verbatim>\<open>Date.now()\<close> and one millisecond more at each later read, the event loop is
  5000 ms old, every \<^verbatim>\<open>Math.random()\<close> of \<^verbatim>\<open>generateRoomId\<close> returns 0 and so does
  its floored product (\<^verbatim>\<open>generateRoomId\<close> gives \<^verbatim>\<open>AA00\<close>), and the message suffix is
  \<^verbatim>\<open>4fzyo82mv\<close>.
\<close>

definition env1 :: env where
  "env1 = \<lparr> Date_now = (\<lambda>k. 1700000000000 + int k), loop_now = 5000,
            Math_floor_random = (\<lambda>_. 0), random36 = ''4fzyo82mv'' \<rparr>"

text \<open>Room \<^verbatim>\<open>R1\<close> created for \<^verbatim>\<open>u1\<close> and \<^verbatim>\<open>u2\<close> on an empty server.\<close>

definition st_R1 :: "room state" where
  "st_R1 = create_room env1 ''k1'' ''R1'' [''u1'', ''u2''] init_state"

text \<open>
  Room \<^verbatim>\<open>AA00\<close> created by \<^verbatim>\<open>create_room\<close> for \<^verbatim>\<open>u3\<close> and \<^verbatim>\<open>u4\<close>, with one message
  from \<^verbatim>\<open>u3\<close> in its log.
\<close>

definition st_AA00 :: "room state" where
  "st_AA00 = send_message env1 ''k3'' ''AA00'' ''u3'' ''hi''
               (create_room env1 ''k3'' ''AA00'' [''u3'', ''u4''] init_state)"

text \<open>
  \<^verbatim>\<open>R1\<close> again, with sockets \<^verbatim>\<open>k1\<close> and \<^verbatim>\<open>k2\<close> connected, after \<^verbatim>\<open>k1\<close> has sent
  \<^verbatim>\<open>join_room\<close> for \<^verbatim>\<open>u1\<close>.
\<close>

definition st_R1_joined :: "room state" where
  "st_R1_joined =
     projr (join_room env1 ''k1'' ''R1'' ''u1'' (connection ''k2'' (connection ''k1'' st_R1)))"

text \<open>The earlier version's \<^verbatim>\<open>R1\<close>, created the same way.\<close>

definition st_R1_v1 :: "room_v1 state" where
  "st_R1_v1 = create_room_v1 env1 ''k1'' ''R1'' [''u1'', ''u2''] init_state"

text \<open>
  A second environment, one second later: every \<^verbatim>\<open>Math.random()\<close> returns 0.5, so the
  floored products are 13 for the letters and 5 for the digits, and
  \<^verbatim>\<open>generateRoomId\<close> gives \<^verbatim>\<open>NN55\<close>.
\<close>

definition env2 :: env where
  "env2 = \<lparr> Date_now = (\<lambda>k. 1700000001000 + int k), loop_now = 6000,
            Math_floor_random = (\<lambda>k. if k < 2 then 13 else 5), random36 = ''i'' \<rparr>"

text \<open>\<^verbatim>\<open>R1\<close> after socket \<^verbatim>\<open>k3\<close> has sent \<^verbatim>\<open>join_room\<close> for the new user \<^verbatim>\<open>u3\<close>.\<close>

definition st_R1_u3 :: "room state" where
  "st_R1_u3 = projr (join_room env1 ''k3'' ''R1'' ''u3'' st_R1)"



section \<open>Evaluating the concrete runs\<close>

lemma string_of_nat_digit: "n < 10 \<Longrightarrow> string_of_nat n = [''0123456789'' ! n]"
  by (simp add: string_of_nat.simps)

lemma string_of_nat_step:
  "\<not> n < 10 \<Longrightarrow> string_of_nat n = string_of_nat (n div 10) @ [''0123456789'' ! (n mod 10)]"
  by (subst string_of_nat.simps) simp

lemma Number_toString_example: "Number_toString 1700000000000 = ''1700000000000''"
  by (simp add: Number_toString_def string_of_nat_digit string_of_nat_step)

lemma generateRoomId_env1: "generateRoomId env1 = ''AA00''"
  by (simp add: generateRoomId_def env1_def charAt_def Number_toString_def string_of_nat_digit)

lemma env1_reads:
  "Date_now env1 k = 1700000000000 + int k"
  "loop_now env1 = 5000"
  "random36 env1 = ''4fzyo82mv''"
  by (simp_all add: env1_def)

lemmas run_defs =
  create_room_def join_by_user_def send_message_def join_room_def register_def
  sendUserRooms_def get_messages_def get_room_expiration_def connection_def
  createRoom_def resetRoomTimer_def deleteRoom_def fire_timer_def
  setTimeout_def clearTimeout_def emit_def socket_join_def recipients_def
  add_userRoom_def remove_userRoom_def new_Set_def Set_add_def Set_delete_def
  init_state_def existingRoom_def ROOM_EXPIRATION_MINUTES_def minutesLeft_def Let_def
  generateRoomId_env1 Number_toString_example env1_reads

lemmas run_defs_v1 =
  create_room_v1_def createRoom_v1_def join_room_v1_def send_message_v1_def
  sendUserRooms_v1_def resetRoomTimer_v1_def deleteRoom_v1_def fire_timer_v1_def
  setTimeout_def clearTimeout_def emit_def socket_join_def recipients_def
  add_userRoom_def remove_userRoom_def new_Set_def Set_add_def Set_delete_def
  init_state_def ROOM_EXPIRATION_MINUTES_def minutesLeft_v1_def Let_def env1_reads

lemma st_R1_room:
  "rooms st_R1 ''R1'' = Some \<lparr> id_r = ''R1'', users = [''u1'', ''u2''], messages = [],
      createdAt = 1700000000001, expiresAt = 1700000300000, timer = 0 \<rparr>"
  by (simp add: st_R1_def run_defs)

lemma st_R1_no_R0: "rooms st_R1 ''R0'' = None"
  by (simp add: st_R1_def run_defs)


lemma env2_reads:
  "Date_now env2 k = 1700000001000 + int k"
  "loop_now env2 = 6000"
  by (simp_all add: env2_def)

lemma st_R1_u3_join: "join_room env1 ''k3'' ''R1'' ''u3'' st_R1 = Inr st_R1_u3"
  by (simp add: st_R1_u3_def st_R1_def run_defs)

lemma st_R1_u3_users: "map_option users (rooms st_R1_u3 ''R1'') = Some [''u1'', ''u2'', ''u3'']"
  by (simp add: st_R1_u3_def st_R1_def run_defs)

section \<open>What the fields other than the outbox are after an emission\<close>

lemma emit_fields [simp]:
  "rooms (emit t ev s) = rooms s"
  "userRooms (emit t ev s) = userRooms s"
  "timers (emit t ev s) = timers s"
  "next_timer (emit t ev s) = next_timer s"
  "outbox (emit t ev s) = outbox s @ [(t, ev)]"
  by (simp_all add: emit_def)

lemma foldl_emit_fields:
  "rooms (foldl (\<lambda>s' u. emit (t u) (ev u) s') s us) = rooms s"
  "userRooms (foldl (\<lambda>s' u. emit (t u) (ev u) s') s us) = userRooms s"
  "timers (foldl (\<lambda>s' u. emit (t u) (ev u) s') s us) = timers s"
  by (induction us arbitrary: s) simp_all

lemma add_userRoom_fields [simp]:
  "rooms (add_userRoom r s u) = rooms s"
  "timers (add_userRoom r s u) = timers s"
  "outbox (add_userRoom r s u) = outbox s"
  by (simp_all add: add_userRoom_def)

lemma foldl_add_userRoom_fields:
  "rooms (foldl (add_userRoom r) s us) = rooms s"
  "timers (foldl (add_userRoom r) s us) = timers s"
  "outbox (foldl (add_userRoom r) s us) = outbox s"
  by (induction us arbitrary: s) simp_all

lemma remove_userRoom_fields [simp]:
  "rooms (remove_userRoom r s u) = rooms s"
  "timers (remove_userRoom r s u) = timers s"
  "outbox (remove_userRoom r s u) = outbox s"
  by (simp_all add: remove_userRoom_def split: option.splits)

lemma foldl_remove_userRoom_fields:
  "rooms (foldl (remove_userRoom r) s us) = rooms s"
  "timers (foldl (remove_userRoom r) s us) = timers s"
  "outbox (foldl (remove_userRoom r) s us) = outbox s"
  by (induction us arbitrary: s) simp_all

lemma create_room_live: "rooms (create_room e sock roomId userIds s) roomId \<noteq> None"
  by (simp add: create_room_def createRoom_def setTimeout_def Let_def foldl_emit_fields
      foldl_add_userRoom_fields)

section \<open>Sets as insertion-ordered lists\<close>

lemma set_Set_add [simp]: "set (Set_add x xs) = insert x (set xs)"
  by (auto simp: Set_add_def)

lemma distinct_Set_add [simp]: "distinct (Set_add x xs) = distinct xs"
  by (simp add: Set_add_def)

lemma Set_add_idem [simp]: "Set_add x (Set_add x xs) = Set_add x xs"
  by (simp add: Set_add_def)

lemma set_Set_delete [simp]: "set (Set_delete x xs) = set xs - {x}"
  by (auto simp: Set_delete_def)

lemma Set_delete_idem [simp]: "Set_delete x (Set_delete x xs) = Set_delete x xs"
  by (simp add: Set_delete_def)

lemma new_Set_foldl:
  "set (foldl (\<lambda>acc x. Set_add x acc) acc xs) = set acc \<union> set xs"
  "distinct (foldl (\<lambda>acc x. Set_add x acc) acc xs) = distinct acc"
  by (induction xs arbitrary: acc) auto

lemma set_new_Set [simp]: "set (new_Set xs) = set xs"
  by (simp add: new_Set_def new_Set_foldl)

lemma distinct_new_Set [simp]: "distinct (new_Set xs)"
  by (simp add: new_Set_def new_Set_foldl)

section \<open>The index after the two \<^verbatim>\<open>forEach\<close> loops\<close>

lemma userRooms_foldl_add:
  "userRooms (foldl (add_userRoom r) s us) u =
     (if u \<in> set us
      then Some (Set_add r (case userRooms s u of None \<Rightarrow> [] | Some rs \<Rightarrow> rs))
      else userRooms s u)"
  by (induction us arbitrary: s) (auto simp: add_userRoom_def)

lemma userRooms_foldl_remove:
  "userRooms (foldl (remove_userRoom r) s us) u =
     (if u \<in> set us
      then (case userRooms s u of
              None \<Rightarrow> None
            | Some rs \<Rightarrow> if Set_delete r rs = [] then None else Some (Set_delete r rs))
      else userRooms s u)"
proof (induction us arbitrary: s)
  case Nil
  show ?case by simp
next
  case (Cons a us)
  show ?case
    by (simp add: Cons.IH) (auto simp: remove_userRoom_def split: option.splits)
qed

section \<open>Every reachable state is well formed\<close>























section \<open>\<^verbatim>\<open>join_room\<close> on a live room\<close>

lemma Set_add_member: "x \<in> set (Set_add x xs)"
  by (simp add: Set_add_def)

lemma join_room_live:
  assumes "rooms s roomId = Some room"
  shows "join_room e sock roomId userId s =
    sendUserRooms sock userId
      (s\<lparr> userRooms :=
            (if userId \<in> set (users room) then userRooms s
             else (userRooms s)(userId \<mapsto>
                    Set_add roomId (case userRooms s userId of None \<Rightarrow> [] | Some rs \<Rightarrow> rs))),
          joined := (joined s)(sock := Set_add roomId (joined s sock)),
          timers := (timers s)(timer room := None,
                      next_timer s \<mapsto> \<lparr> callback_roomId = roomId, idleStart = loop_now e,
                                        idleTimeout = ROOM_EXPIRATION_MINUTES * 60 * 1000 \<rparr>),
          next_timer := Suc (next_timer s),
          rooms := (rooms s)(roomId \<mapsto>
                      room\<lparr> users := Set_add userId (users room),
                            expiresAt := Date_now e 0 + ROOM_EXPIRATION_MINUTES * 60 * 1000,
                            timer := next_timer s \<rparr>),
          outbox := outbox s @
            [(To_socket sock, Room_joined roomId (length (Set_add userId (users room)))),
             (To_socket sock, Room_expiration
                (minutesLeft (Date_now e 0 + ROOM_EXPIRATION_MINUTES * 60 * 1000) (Date_now e 1)))] \<rparr>)"
  using assms
  by (simp add: join_room_def Let_def resetRoomTimer_def socket_join_def setTimeout_def
      clearTimeout_def add_userRoom_def emit_def ROOM_EXPIRATION_MINUTES_def Set_add_def)

lemma roomsData_cong:
  "(\<And>r. map_option users (rooms s r) = map_option users (rooms s' r)) \<Longrightarrow>
   roomsData s rs = roomsData s' rs"
proof (induction rs)
  case Nil
  show ?case by simp
next
  case (Cons r rs)
  from Cons.prems [of r] Cons.IH [OF Cons.prems] show ?case
    by (cases "rooms s r"; cases "rooms s' r") (auto split: option.splits)
qed

lemma sendUserRooms_Inr:
  assumes "sendUserRooms sock u S = Inr s1"
  shows "\<exists>ds. s1 = S\<lparr> outbox := outbox S @ [(To_socket sock, User_rooms ds)] \<rparr>
     \<and> (case userRooms S u of None \<Rightarrow> ds = [] | Some rs \<Rightarrow> roomsData S rs = Some ds)"
  using assms by (auto simp: sendUserRooms_def emit_def split: option.splits)

lemma sendUserRooms_cong:
  assumes "sendUserRooms sock u S = Inr s1"
    and "\<And>r. map_option users (rooms S' r) = map_option users (rooms S r)"
    and "userRooms S' = userRooms S"
  shows "\<exists>ds. sendUserRooms sock' u S' = Inr (S'\<lparr> outbox := outbox S' @ [(To_socket sock', User_rooms ds)] \<rparr>)"
proof (cases "userRooms S u")
  case None
  with assms(3) show ?thesis by (auto simp: sendUserRooms_def emit_def)
next
  case (Some rs)
  with sendUserRooms_Inr [OF assms(1)] obtain ds where "roomsData S rs = Some ds" by auto
  moreover have "roomsData S' rs = roomsData S rs"
    by (rule roomsData_cong) (rule assms(2))
  ultimately show ?thesis using Some assms(3)
    by (intro exI [of _ ds]) (simp add: sendUserRooms_def emit_def)
qed

section \<open>The search of \<^verbatim>\<open>join_by_user\<close>\<close>









section \<open>The minutes left, later version\<close>

lemma minutesLeft_nonneg: "0 \<le> minutesLeft expires now"
  by (simp add: minutesLeft_def)

lemma minutesLeft_remainingTTL:
  "minutesLeft expires now = \<lceil>real_of_int (remainingTTL_spec expires now) / 60000\<rceil>"
proof (cases "expires \<le> now")
  case True
  then have "real_of_int (expires - now) / 60000 \<le> 0" by simp
  then have "\<lceil>real_of_int (expires - now) / 60000\<rceil> \<le> 0" by (simp add: ceiling_le_zero)
  with True show ?thesis by (simp add: minutesLeft_def remainingTTL_spec_def)
next
  case False
  then have "0 \<le> \<lceil>real_of_int (expires - now) / 60000\<rceil>" by (simp add: ceiling_le_iff le_ceiling_iff)
  with False show ?thesis by (simp add: minutesLeft_def remainingTTL_spec_def max_def)
qed

lemma minutesLeft_after_reset:
  assumes "now \<le> now'" "now' < now + 60000"
  shows "minutesLeft (now + ROOM_EXPIRATION_MINUTES * 60 * 1000) now' = ROOM_EXPIRATION_MINUTES"
proof -
  have "\<lceil>real_of_int (now + 300000 - now') / 60000\<rceil> = 5"
    using assms by (simp add: ceiling_eq_iff) 
  then show ?thesis by (simp add: minutesLeft_def ROOM_EXPIRATION_MINUTES_def)
qed

text \<open>
  Where the later version emits \<^verbatim>\<open>room_expiration\<close>, the value is \<open>minutesLeft\<close> of
  the room's \<^verbatim>\<open>expiresAt\<close> and a later \<^verbatim>\<open>Date.now()\<close>; after \<^verbatim>\<open>join_room\<close> and
  \<^verbatim>\<open>send_message\<close> the \<^verbatim>\<open>expiresAt\<close> is the one just set by the reset.
\<close>

lemma later_version_room_expiration:
  assumes "rooms s roomId = Some room"
  shows "join_room e sock roomId userId s = Inr s' \<Longrightarrow>
      \<exists>ds. outbox s' = outbox s @
        [(To_socket sock, Room_joined roomId (length (Set_add userId (users room)))),
         (To_socket sock, Room_expiration
            (minutesLeft (Date_now e 0 + ROOM_EXPIRATION_MINUTES * 60 * 1000) (Date_now e 1))),
         (To_socket sock, User_rooms ds)]"
    and "userId \<in> set (users room) \<Longrightarrow>
      outbox (send_message e sock roomId userId message s) = outbox s @
        [(To_channel roomId,
          New_message (Number_toString (Date_now e 0) @ ''-'' @ random36 e) roomId userId message),
         (To_channel roomId, Room_expiration
            (minutesLeft (Date_now e 2 + ROOM_EXPIRATION_MINUTES * 60 * 1000) (Date_now e 3)))]"
    and "outbox (get_room_expiration e sock roomId s) = outbox s @
        [(To_socket sock, Room_expiration (minutesLeft (expiresAt room) (Date_now e 0)))]"
proof -
  show "\<exists>ds. outbox s' = outbox s @
        [(To_socket sock, Room_joined roomId (length (Set_add userId (users room)))),
         (To_socket sock, Room_expiration
            (minutesLeft (Date_now e 0 + ROOM_EXPIRATION_MINUTES * 60 * 1000) (Date_now e 1))),
         (To_socket sock, User_rooms ds)]"
    if "join_room e sock roomId userId s = Inr s'"
    using that unfolding join_room_live [OF assms]
    by (auto dest!: sendUserRooms_Inr)
  show "outbox (send_message e sock roomId userId message s) = outbox s @
        [(To_channel roomId,
          New_message (Number_toString (Date_now e 0) @ ''-'' @ random36 e) roomId userId message),
         (To_channel roomId, Room_expiration
            (minutesLeft (Date_now e 2 + ROOM_EXPIRATION_MINUTES * 60 * 1000) (Date_now e 3)))]"
    if "userId \<in> set (users room)"
    using that assms
    by (simp add: send_message_def resetRoomTimer_def setTimeout_def clearTimeout_def Let_def
        ROOM_EXPIRATION_MINUTES_def)
  show "outbox (get_room_expiration e sock roomId s) = outbox s @
        [(To_socket sock, Room_expiration (minutesLeft (expiresAt room) (Date_now e 0)))]"
    using assms by (simp add: get_room_expiration_def)
qed

section \<open>The membership invariant, as long as no generated id is live\<close>

text \<open>
  Every handler and the timeout callback keep the invariant, \<^verbatim>\<open>join_by_user\<close> under the
  condition that the id it generates is not live when it creates a room.
\<close>

lemma consistentD:
  assumes "membership_consistent s"
  shows "(\<exists>room. rooms s r = Some room \<and> u \<in> set (users room))
        \<longleftrightarrow> (\<exists>rs. userRooms s u = Some rs \<and> r \<in> set rs)"
  using assms unfolding membership_consistent_def by blast

lemma consistent_same:
  assumes c: "membership_consistent s"
    and same: "\<And>r. map_option users (rooms s' r) = map_option users (rooms s r)"
    and index: "userRooms s' = userRooms s"
  shows "membership_consistent s'"
proof -
  have "(\<exists>room. rooms s' r = Some room \<and> u \<in> set (users room))
      \<longleftrightarrow> (\<exists>room. rooms s r = Some room \<and> u \<in> set (users room))" for r u
    using same [of r] by (cases "rooms s r"; cases "rooms s' r") auto
  with c show ?thesis
    unfolding membership_consistent_def index by simp
qed

lemma consistent_emit: "membership_consistent s \<Longrightarrow> membership_consistent (emit t ev s)"
  by (erule consistent_same) simp_all

lemma consistent_foldl_emit:
  "membership_consistent s \<Longrightarrow>
   membership_consistent (foldl (\<lambda>s' u. emit (t u) (ev u) s') s us)"
  by (erule consistent_same) (simp_all add: foldl_emit_fields)

lemma consistent_createRoom:
  assumes c: "membership_consistent s" and free: "rooms s roomId = None"
  shows "membership_consistent (snd (createRoom now0 now1 lnow roomId userIds s))"
proof -
  let ?s' = "snd (createRoom now0 now1 lnow roomId userIds s)"
  have rooms': "rooms ?s' = (rooms s)(roomId \<mapsto>
      \<lparr> id_r = roomId, users = new_Set userIds, messages = [], createdAt = now1,
        expiresAt = now0 + ROOM_EXPIRATION_MINUTES * 60 * 1000, timer = next_timer s \<rparr>)"
    by (simp add: createRoom_def setTimeout_def Let_def foldl_add_userRoom_fields)
  have index': "userRooms ?s' u =
     (if u \<in> set userIds
      then Some (Set_add roomId (case userRooms s u of None \<Rightarrow> [] | Some rs \<Rightarrow> rs))
      else userRooms s u)" for u
    by (simp add: createRoom_def setTimeout_def Let_def userRooms_foldl_add)
  have unused: "\<not> (\<exists>rs. userRooms s u = Some rs \<and> roomId \<in> set rs)" for u
    using consistentD [OF c, of roomId u] free by simp
  show ?thesis
    unfolding membership_consistent_def
  proof (intro allI)
    fix r u
    show "(\<exists>room. rooms ?s' r = Some room \<and> u \<in> set (users room))
        \<longleftrightarrow> (\<exists>rs. userRooms ?s' u = Some rs \<and> r \<in> set rs)"
    proof (cases "r = roomId")
      case True
      with unused [of u] show ?thesis by (auto simp: rooms' index')
    next
      case False
      with consistentD [OF c, of r u] show ?thesis
        by (auto simp: rooms' index' split: option.splits)
    qed
  qed
qed

lemma consistent_deleteRoom:
  assumes c: "membership_consistent s"
  shows "membership_consistent (deleteRoom roomId s)"
proof (cases "rooms s roomId")
  case None
  with c show ?thesis by (simp add: deleteRoom_def)
next
  case (Some gone)
  have rooms': "rooms (deleteRoom roomId s) = (rooms s)(roomId := None)"
    using Some
    by (simp add: deleteRoom_def Let_def clearTimeout_def foldl_remove_userRoom_fields)
  have index': "userRooms (deleteRoom roomId s) u =
     (if u \<in> set (users gone)
      then (case userRooms s u of
              None \<Rightarrow> None
            | Some rs \<Rightarrow> if Set_delete roomId rs = [] then None else Some (Set_delete roomId rs))
      else userRooms s u)" for u
    using Some by (simp add: deleteRoom_def Let_def clearTimeout_def userRooms_foldl_remove)
  show ?thesis
    unfolding membership_consistent_def
  proof (intro allI)
    fix r u
    let ?L = "\<exists>room. rooms (deleteRoom roomId s) r = Some room \<and> u \<in> set (users room)"
    let ?R = "\<exists>rs. userRooms (deleteRoom roomId s) u = Some rs \<and> r \<in> set rs"
    show "?L \<longleftrightarrow> ?R"
    proof (cases "r = roomId")
      case True
      have "\<not> ?L" using True by (simp add: rooms')
      moreover have "\<not> ?R"
      proof (cases "u \<in> set (users gone)")
        case True
        with \<open>r = roomId\<close> show ?thesis
          by (auto simp: index' split: option.splits if_splits)
      next
        case False
        with consistentD [OF c, of roomId u] Some \<open>r = roomId\<close> show ?thesis
          by (simp add: index')
      qed
      ultimately show ?thesis by blast
    next
      case False
      then have L: "?L \<longleftrightarrow> (\<exists>room. rooms s r = Some room \<and> u \<in> set (users room))"
        by (simp add: rooms')
      have nonempty: "Set_delete roomId rs \<noteq> []" if "r \<in> set rs" for rs
      proof -
        from that False have "r \<in> set (Set_delete roomId rs)" by simp
        then show ?thesis by (cases "Set_delete roomId rs") simp_all
      qed
      have R: "?R \<longleftrightarrow> (\<exists>rs. userRooms s u = Some rs \<and> r \<in> set rs)"
        using False nonempty by (auto simp: index' split: option.splits if_splits)
      from L R consistentD [OF c, of r u] show ?thesis by blast
    qed
  qed
qed

lemma consistent_resetRoomTimer:
  "membership_consistent s \<Longrightarrow> membership_consistent (resetRoomTimer now lnow roomId s)"
  by (erule consistent_same)
    (auto simp: resetRoomTimer_def setTimeout_def clearTimeout_def Let_def
      split: option.splits if_splits)

lemma consistent_sendUserRooms:
  "membership_consistent s \<Longrightarrow> sendUserRooms sock userId s = Inr s' \<Longrightarrow>
   membership_consistent s'"
  by (auto simp: sendUserRooms_def consistent_emit split: option.splits)

lemma consistent_join_room:
  assumes c: "membership_consistent s" and joined: "join_room e sock roomId userId s = Inr s'"
  shows "membership_consistent s'"
proof (cases "rooms s roomId")
  case None
  with assms show ?thesis by (auto simp: join_room_def consistent_emit)
next
  case (Some room)
  define S where "S = s\<lparr> userRooms :=
            (if userId \<in> set (users room) then userRooms s
             else (userRooms s)(userId \<mapsto>
                    Set_add roomId (case userRooms s userId of None \<Rightarrow> [] | Some rs \<Rightarrow> rs))),
          joined := (joined s)(sock := Set_add roomId (joined s sock)),
          timers := (timers s)(timer room := None,
                      next_timer s \<mapsto> \<lparr> callback_roomId = roomId, idleStart = loop_now e,
                                        idleTimeout = ROOM_EXPIRATION_MINUTES * 60 * 1000 \<rparr>),
          next_timer := Suc (next_timer s),
          rooms := (rooms s)(roomId \<mapsto>
                      room\<lparr> users := Set_add userId (users room),
                            expiresAt := Date_now e 0 + ROOM_EXPIRATION_MINUTES * 60 * 1000,
                            timer := next_timer s \<rparr>),
          outbox := outbox s @
            [(To_socket sock, Room_joined roomId (length (Set_add userId (users room)))),
             (To_socket sock, Room_expiration
                (minutesLeft (Date_now e 0 + ROOM_EXPIRATION_MINUTES * 60 * 1000) (Date_now e 1)))] \<rparr>"
  have sent: "sendUserRooms sock userId S = Inr s'"
    using joined unfolding join_room_live [OF Some] S_def .
  have "membership_consistent S"
    unfolding membership_consistent_def
  proof (intro allI)
    fix r u
    show "(\<exists>room. rooms S r = Some room \<and> u \<in> set (users room))
        \<longleftrightarrow> (\<exists>rs. userRooms S u = Some rs \<and> r \<in> set rs)"
    proof (cases "userId \<in> set (users room)")
      case True
      with consistentD [OF c, of r u] Some show ?thesis
        by (auto simp: S_def Set_add_def)
    next
      case False
      with consistentD [OF c, of r u] Some show ?thesis
        by (auto simp: S_def split: option.splits)
    qed
  qed
  then show ?thesis using sent by (rule consistent_sendUserRooms)
qed

lemma consistent_create_room:
  assumes "membership_consistent s"
  shows "membership_consistent (create_room e sock roomId userIds s)"
proof (cases "rooms s roomId")
  case (Some room)
  with assms show ?thesis by (simp add: create_room_def consistent_emit)
next
  case None
  obtain room s1 where made: "createRoom (Date_now e 0) (Date_now e 1) (loop_now e) roomId userIds s
      = (room, s1)"
    by (cases "createRoom (Date_now e 0) (Date_now e 1) (loop_now e) roomId userIds s")
  with consistent_createRoom [OF assms None, of "Date_now e 0" "Date_now e 1" "loop_now e" userIds]
  have "membership_consistent s1" by simp
  with None made show ?thesis
    by (simp add: create_room_def consistent_foldl_emit)
qed

lemma consistent_join_by_user:
  assumes "membership_consistent s"
    and "existingRoom s currentUserId userId = None \<longrightarrow> rooms s (generateRoomId e) = None"
  shows "membership_consistent (join_by_user e sock userId currentUserId s)"
proof (cases "existingRoom s currentUserId userId")
  case (Some room)
  with assms show ?thesis by (simp add: join_by_user_def consistent_emit)
next
  case None
  with assms(2) have free: "rooms s (generateRoomId e) = None" by simp
  obtain room s1 where made: "createRoom (Date_now e 0) (Date_now e 1) (loop_now e)
      (generateRoomId e) [currentUserId, userId] s = (room, s1)"
    by (cases "createRoom (Date_now e 0) (Date_now e 1) (loop_now e)
      (generateRoomId e) [currentUserId, userId] s")
  with consistent_createRoom [OF assms(1) free, of "Date_now e 0" "Date_now e 1" "loop_now e"
      "[currentUserId, userId]"]
  have "membership_consistent s1" by simp
  with None made show ?thesis
    by (simp add: join_by_user_def Let_def consistent_emit)
qed

lemma consistent_send_message:
  assumes "membership_consistent s"
  shows "membership_consistent (send_message e sock roomId userId message s)"
proof (cases "rooms s roomId")
  case None
  with assms show ?thesis by (simp add: send_message_def consistent_emit)
next
  case (Some room)
  have "membership_consistent (s\<lparr> rooms := (rooms s)(roomId \<mapsto> room\<lparr> messages := ms \<rparr>) \<rparr>)"
    for ms
    using assms by (rule consistent_same) (auto simp: Some)
  with assms Some show ?thesis
    by (simp add: send_message_def Let_def consistent_emit consistent_resetRoomTimer)
qed

lemma consistent_fire_timer:
  assumes "membership_consistent s"
  shows "membership_consistent (fire_timer lnow h s)"
proof -
  have "membership_consistent (clearTimeout h s)"
    using assms by (rule consistent_same) (simp_all add: clearTimeout_def)
  with assms show ?thesis
    by (simp add: fire_timer_def consistent_deleteRoom split: option.splits)
qed

lemma consistent_init: "membership_consistent init_state"
  by (simp add: membership_consistent_def init_state_def)

lemma consistent_get_messages:
  "membership_consistent s \<Longrightarrow> membership_consistent (get_messages sock roomId s)"
  by (simp add: get_messages_def consistent_emit split: option.splits)

lemma consistent_get_room_expiration:
  "membership_consistent s \<Longrightarrow> membership_consistent (get_room_expiration e sock roomId s)"
  by (simp add: get_room_expiration_def consistent_emit split: option.splits)

lemma consistent_register:
  assumes "membership_consistent s" and "register sock userId s = Inr s'"
  shows "membership_consistent s'"
proof -
  have "membership_consistent (s\<lparr> socket_userId := (socket_userId s)(sock \<mapsto> userId) \<rparr>)"
    using assms(1) by (rule consistent_same) simp_all
  with assms(2) show ?thesis
    unfolding register_def by (rule consistent_sendUserRooms [rotated])
qed

section \<open>Claims\<close>

text \<open>
  Claim C1 (not met by the code, through the defect of C3): in every reachable state a
  user is in a live room's member set exactly when the room's id is in the user's index
  entry. The lemmas above show that every step keeps this, but for a \<^verbatim>\<open>join_by_user\<close>
  that creates a room under an id that is live. After the run of C3 the index entry of
  \<^verbatim>\<open>u3\<close> still holds \<^verbatim>\<open>AA00\<close> while the live room \<^verbatim>\<open>AA00\<close> has members \<^verbatim>\<open>u1\<close>, \<^verbatim>\<open>u2\<close>
  only. When the replaced room's timeout (handle 1) then fires, \<^verbatim>\<open>AA00\<close> is deleted and
  the entry of \<^verbatim>\<open>u3\<close> names no room; a later \<^verbatim>\<open>register\<close> of \<^verbatim>\<open>u3\<close> throws in
  \<^verbatim>\<open>sendUserRooms\<close>.
\<close>

theorem index_inconsistent_after_collision:
  "userRooms (join_by_user env1 ''k1'' ''u2'' ''u1'' st_AA00) ''u3'' = Some [''AA00'']
   \<and> map_option users (rooms (join_by_user env1 ''k1'' ''u2'' ''u1'' st_AA00) ''AA00'')
       = Some [''u1'', ''u2'']
   \<and> rooms (fire_timer 305000 1 (join_by_user env1 ''k1'' ''u2'' ''u1'' st_AA00)) ''AA00''
       = None
   \<and> userRooms (fire_timer 305000 1 (join_by_user env1 ''k1'' ''u2'' ''u1'' st_AA00)) ''u3''
       = Some [''AA00'']
   \<and> register ''k3'' ''u3'' (fire_timer 305000 1 (join_by_user env1 ''k1'' ''u2'' ''u1'' st_AA00))
       = Inl TypeError"
  by (simp add: st_AA00_def run_defs)

text \<open>
  Claim C2. When \<open>roomId\<close> is live, \<^verbatim>\<open>create_room\<close> answers the sender with the
  "already exists" error and changes nothing else: the state after the call is the state
  before it with that one event appended to the outbox, so the room, its members, its
  log, the registry, the index and the timers are the ones before. Whatever the state
  was, a second \<^verbatim>\<open>create_room\<close> with the same id right after a first one is refused in
  that way.
\<close>

theorem create_room_AlreadyExists:
  "(rooms s roomId \<noteq> None \<longrightarrow>
      create_room e sock roomId userIds s
        = s\<lparr> outbox := outbox s @ [(To_socket sock, Error AlreadyExists)] \<rparr>)
   \<and> (let s1 = create_room e sock roomId userIds s
      in create_room e' sock' roomId userIds' s1
           = s1\<lparr> outbox := outbox s1 @ [(To_socket sock', Error AlreadyExists)] \<rparr>)"
proof -
  have live: "rooms s' roomId \<noteq> None \<Longrightarrow>
      create_room e'' k roomId us s'
        = s'\<lparr> outbox := outbox s' @ [(To_socket k, Error AlreadyExists)] \<rparr>" for s' e'' k us
    by (simp add: create_room_def emit_def)
  show ?thesis
    using live create_room_live by (simp add: Let_def)
qed

text \<open>
  C2 on the run \<open>st_R1\<close>: \<^verbatim>\<open>R1\<close> is live there, and a \<^verbatim>\<open>create_room\<close> for it from
  socket \<^verbatim>\<open>k2\<close> only adds the error event.
\<close>

theorem create_room_AlreadyExists_witness:
  "rooms st_R1 ''R1'' \<noteq> None
   \<and> create_room env1 ''k2'' ''R1'' [''u9''] st_R1
       = st_R1\<lparr> outbox := outbox st_R1 @ [(To_socket ''k2'', Error AlreadyExists)] \<rparr>"
proof -
  have live: "rooms st_R1 ''R1'' \<noteq> None"
    by (simp add: st_R1_room)
  with create_room_AlreadyExists [where s = st_R1 and roomId = "''R1''" and e = env1
      and sock = "''k2''" and userIds = "[''u9'']"]
  show ?thesis by blast
qed

text \<open>
  Claim C3 (not met by the code): a generated id that is live makes the implicit
  creation fail with "already exists" and leaves the live room alone. \<^verbatim>\<open>join_by_user\<close>
  hands the generated id to \<^verbatim>\<open>createRoom\<close> without the \<^verbatim>\<open>rooms.has\<close> test that
  \<^verbatim>\<open>create_room\<close> makes. In the run below \<^verbatim>\<open>AA00\<close> is live with members \<^verbatim>\<open>u3\<close>,
  \<^verbatim>\<open>u4\<close> and one message; \<^verbatim>\<open>u1\<close> asks for a room with \<^verbatim>\<open>u2\<close>, no two-party room
  exists, the generator returns \<^verbatim>\<open>AA00\<close>, and the room stored under \<^verbatim>\<open>AA00\<close> is
  replaced by a new one with members \<^verbatim>\<open>u1\<close>, \<^verbatim>\<open>u2\<close> and an empty log. Two
  \<^verbatim>\<open>room_created\<close> events are emitted and no error; the replaced room's timeout
  (handle 1) stays pending.
\<close>

theorem join_by_user_collision_overwrites:
  "rooms st_AA00 ''AA00'' =
     Some \<lparr> id_r = ''AA00'', users = [''u3'', ''u4''],
            messages = [\<lparr> id_m = ''1700000000000-4fzyo82mv'', userId_m = ''u3'',
                          message_m = ''hi'', timestamp_m = 1700000000001 \<rparr>],
            createdAt = 1700000000001, expiresAt = 1700000300002, timer = 1 \<rparr>
   \<and> existingRoom st_AA00 ''u1'' ''u2'' = None
   \<and> generateRoomId env1 = ''AA00''
   \<and> rooms (join_by_user env1 ''k1'' ''u2'' ''u1'' st_AA00) ''AA00'' =
     Some \<lparr> id_r = ''AA00'', users = [''u1'', ''u2''], messages = [],
            createdAt = 1700000000001, expiresAt = 1700000300000, timer = 2 \<rparr>
   \<and> outbox (join_by_user env1 ''k1'' ''u2'' ''u1'' st_AA00) =
       outbox st_AA00 @ [(To_socket ''k1'', Room_created ''AA00'' 2),
                         (To_channel ''u2'', Room_created ''AA00'' 2)]
   \<and> timers (join_by_user env1 ''k1'' ''u2'' ''u1'' st_AA00) 1 =
       Some \<lparr> callback_roomId = ''AA00'', idleStart = 5000, idleTimeout = 300000 \<rparr>"
  by (simp add: st_AA00_def run_defs)

text \<open>
  Claim C4. Let \<open>roomId\<close> be live and let a first \<^verbatim>\<open>join_room\<close> for \<open>userId\<close> return
  (whether or not the user was a member before). Then a second \<^verbatim>\<open>join_room\<close> for the
  same room and user returns too, leaves every room's member list and the whole index
  as the first left them, and each of the two calls sets the room's \<^verbatim>\<open>expiresAt\<close> to
  its own \<^verbatim>\<open>Date.now()\<close> plus five minutes, cancels the room's pending timeout and arms
  a new one for five minutes.
\<close>

theorem join_room_idempotent:
  assumes live: "rooms s roomId = Some room"
    and first: "join_room e sock roomId userId s = Inr s1"
  shows "\<exists>s2. join_room e' sock' roomId userId s1 = Inr s2
     \<and> (\<forall>r. map_option users (rooms s2 r) = map_option users (rooms s1 r))
     \<and> userRooms s2 = userRooms s1
     \<and> map_option expiresAt (rooms s1 roomId)
         = Some (Date_now e 0 + ROOM_EXPIRATION_MINUTES * 60 * 1000)
     \<and> map_option expiresAt (rooms s2 roomId)
         = Some (Date_now e' 0 + ROOM_EXPIRATION_MINUTES * 60 * 1000)
     \<and> timers s1 = (timers s)(timer room := None,
          next_timer s \<mapsto> \<lparr> callback_roomId = roomId, idleStart = loop_now e,
                            idleTimeout = ROOM_EXPIRATION_MINUTES * 60 * 1000 \<rparr>)
     \<and> map_option timer (rooms s1 roomId) = Some (next_timer s)
     \<and> timers s2 = (timers s1)(next_timer s := None,
          next_timer s1 \<mapsto> \<lparr> callback_roomId = roomId, idleStart = loop_now e',
                            idleTimeout = ROOM_EXPIRATION_MINUTES * 60 * 1000 \<rparr>)
     \<and> map_option timer (rooms s2 roomId) = Some (next_timer s1)"
proof -
  let ?ttl = "ROOM_EXPIRATION_MINUTES * 60 * 1000"
  define room1 where "room1 = room\<lparr> users := Set_add userId (users room),
      expiresAt := Date_now e 0 + ?ttl, timer := next_timer s \<rparr>"
  define S1 where "S1 = s\<lparr> userRooms :=
            (if userId \<in> set (users room) then userRooms s
             else (userRooms s)(userId \<mapsto>
                    Set_add roomId (case userRooms s userId of None \<Rightarrow> [] | Some rs \<Rightarrow> rs))),
          joined := (joined s)(sock := Set_add roomId (joined s sock)),
          timers := (timers s)(timer room := None,
                      next_timer s \<mapsto> \<lparr> callback_roomId = roomId, idleStart = loop_now e,
                                        idleTimeout = ?ttl \<rparr>),
          next_timer := Suc (next_timer s),
          rooms := (rooms s)(roomId \<mapsto> room1),
          outbox := outbox s @
            [(To_socket sock, Room_joined roomId (length (Set_add userId (users room)))),
             (To_socket sock, Room_expiration
                (minutesLeft (Date_now e 0 + ?ttl) (Date_now e 1)))] \<rparr>"
  have sent: "sendUserRooms sock userId S1 = Inr s1"
    using first unfolding join_room_live [OF live] S1_def room1_def .
  from sendUserRooms_Inr [OF sent] obtain ds where
    s1: "s1 = S1\<lparr> outbox := outbox S1 @ [(To_socket sock, User_rooms ds)] \<rparr>"
    by blast
  have live1: "rooms s1 roomId = Some room1"
    by (simp add: s1 S1_def)
  have member1: "userId \<in> set (users room1)"
    by (simp add: room1_def Set_add_member)
  define S2 where "S2 = s1\<lparr> userRooms := userRooms s1,
          joined := (joined s1)(sock' := Set_add roomId (joined s1 sock')),
          timers := (timers s1)(timer room1 := None,
                      next_timer s1 \<mapsto> \<lparr> callback_roomId = roomId, idleStart = loop_now e',
                                        idleTimeout = ?ttl \<rparr>),
          next_timer := Suc (next_timer s1),
          rooms := (rooms s1)(roomId \<mapsto>
                      room1\<lparr> users := Set_add userId (users room1),
                            expiresAt := Date_now e' 0 + ?ttl,
                            timer := next_timer s1 \<rparr>),
          outbox := outbox s1 @
            [(To_socket sock', Room_joined roomId (length (Set_add userId (users room1)))),
             (To_socket sock', Room_expiration
                (minutesLeft (Date_now e' 0 + ?ttl) (Date_now e' 1)))] \<rparr>"
  have second: "join_room e' sock' roomId userId s1 = sendUserRooms sock' userId S2"
    unfolding join_room_live [OF live1] S2_def using member1 by simp
  have same_users: "map_option users (rooms S2 r) = map_option users (rooms s1 r)" for r
    using member1 by (simp add: S2_def live1 Set_add_def)
  have same_index: "userRooms S2 = userRooms s1"
    by (simp add: S2_def)
  have unchanged1: "rooms s1 = rooms S1" "userRooms s1 = userRooms S1"
    by (simp_all add: s1)
  from sendUserRooms_cong [OF sent, of S2 sock'] same_users same_index unchanged1
  obtain ds' where "sendUserRooms sock' userId S2
      = Inr (S2\<lparr> outbox := outbox S2 @ [(To_socket sock', User_rooms ds')] \<rparr>)"
    by auto
  with second have "join_room e' sock' roomId userId s1
      = Inr (S2\<lparr> outbox := outbox S2 @ [(To_socket sock', User_rooms ds')] \<rparr>)"
    by simp
  moreover have "rooms S2 roomId = Some (room1\<lparr> expiresAt := Date_now e' 0 + ?ttl,
      timer := next_timer s1 \<rparr>)"
    using member1 by (simp add: S2_def Set_add_def)
  moreover have "timers S2 = (timers s1)(next_timer s := None,
          next_timer s1 \<mapsto> \<lparr> callback_roomId = roomId, idleStart = loop_now e',
                            idleTimeout = ?ttl \<rparr>)"
    by (simp add: S2_def room1_def)
  moreover have "timers s1 = (timers s)(timer room := None,
          next_timer s \<mapsto> \<lparr> callback_roomId = roomId, idleStart = loop_now e,
                            idleTimeout = ?ttl \<rparr>)"
    by (simp add: s1 S1_def)
  ultimately show ?thesis
    using same_users same_index live1
    by (simp add: room1_def)
qed

text \<open>
  C4 on the run \<open>st_R1\<close>: \<^verbatim>\<open>u3\<close> joins \<^verbatim>\<open>R1\<close> and joins again one second later; the
  members stay \<^verbatim>\<open>u1\<close>, \<^verbatim>\<open>u2\<close>, \<^verbatim>\<open>u3\<close> and \<^verbatim>\<open>expiresAt\<close> moves on by that second.
\<close>

theorem join_room_idempotent_witness:
  "map_option users (rooms st_R1 ''R1'') = Some [''u1'', ''u2'']
   \<and> join_room env1 ''k3'' ''R1'' ''u3'' st_R1 = Inr st_R1_u3
   \<and> map_option users (rooms st_R1_u3 ''R1'') = Some [''u1'', ''u2'', ''u3'']
   \<and> map_option expiresAt (rooms st_R1_u3 ''R1'') = Some 1700000300000
   \<and> (\<exists>s2. join_room env2 ''k3'' ''R1'' ''u3'' st_R1_u3 = Inr s2
        \<and> map_option users (rooms s2 ''R1'') = Some [''u1'', ''u2'', ''u3'']
        \<and> userRooms s2 = userRooms st_R1_u3
        \<and> map_option expiresAt (rooms s2 ''R1'') = Some 1700000301000)"
proof -
  from join_room_idempotent [OF st_R1_room st_R1_u3_join, of env2 "''k3''"]
  obtain s2 where s2: "join_room env2 ''k3'' ''R1'' ''u3'' st_R1_u3 = Inr s2"
      "\<forall>r. map_option users (rooms s2 r) = map_option users (rooms st_R1_u3 r)"
      "userRooms s2 = userRooms st_R1_u3"
      "map_option expiresAt (rooms st_R1_u3 ''R1'')
         = Some (Date_now env1 0 + ROOM_EXPIRATION_MINUTES * 60 * 1000)"
      "map_option expiresAt (rooms s2 ''R1'')
         = Some (Date_now env2 0 + ROOM_EXPIRATION_MINUTES * 60 * 1000)"
    by blast
  from s2(2) have "map_option users (rooms s2 ''R1'') = Some [''u1'', ''u2'', ''u3'']"
    by (simp add: st_R1_u3_users)
  with s2(1,3,4,5) show ?thesis
    by (simp add: st_R1_room st_R1_u3_join st_R1_u3_users env1_reads env2_reads
        ROOM_EXPIRATION_MINUTES_def)
qed

text \<open>
  Claim C5. \<^verbatim>\<open>send_message\<close> to a room that is not live answers the sender with "not
  found"; from a user who is not in the room's \<^verbatim>\<open>users\<close> it answers with "not a
  member". In both cases the state after the call is the state before it with that one
  event appended to the outbox: no log, room, index entry or timer changes.
\<close>

theorem send_message_rejected:
  "(rooms s roomId = None \<longrightarrow>
      send_message e sock roomId userId message s
        = s\<lparr> outbox := outbox s @ [(To_socket sock, Error NotFound)] \<rparr>)
   \<and> (\<forall>room. rooms s roomId = Some room \<and> userId \<notin> set (users room) \<longrightarrow>
      send_message e sock roomId userId message s
        = s\<lparr> outbox := outbox s @ [(To_socket sock, Error NotMember)] \<rparr>)"
  by (simp add: send_message_def emit_def)

text \<open>
  C5 on the run \<open>st_R1\<close>: \<^verbatim>\<open>R0\<close> is not live, and \<^verbatim>\<open>u9\<close> is not a member of \<^verbatim>\<open>R1\<close>.
\<close>

theorem send_message_rejected_witness:
  "rooms st_R1 ''R0'' = None
   \<and> send_message env1 ''k1'' ''R0'' ''u1'' ''hi'' st_R1
       = st_R1\<lparr> outbox := outbox st_R1 @ [(To_socket ''k1'', Error NotFound)] \<rparr>
   \<and> map_option users (rooms st_R1 ''R1'') = Some [''u1'', ''u2'']
   \<and> send_message env1 ''k9'' ''R1'' ''u9'' ''hi'' st_R1
       = st_R1\<lparr> outbox := outbox st_R1 @ [(To_socket ''k9'', Error NotMember)] \<rparr>"
proof -
  have absent: "rooms st_R1 ''R0'' = None"
    by (rule st_R1_no_R0)
  have stranger: "''u9'' \<notin> set (users \<lparr> id_r = ''R1'', users = [''u1'', ''u2''], messages = [],
      createdAt = 1700000000001, expiresAt = 1700000300000, timer = 0 \<rparr>)"
    by simp
  from send_message_rejected [where s = st_R1 and roomId = "''R0''" and e = env1
      and sock = "''k1''" and userId = "''u1''" and message = "''hi''"] absent
  have first: "send_message env1 ''k1'' ''R0'' ''u1'' ''hi'' st_R1
       = st_R1\<lparr> outbox := outbox st_R1 @ [(To_socket ''k1'', Error NotFound)] \<rparr>"
    by blast
  from send_message_rejected [where s = st_R1 and roomId = "''R1''" and e = env1
      and sock = "''k9''" and userId = "''u9''" and message = "''hi''"] st_R1_room stranger
  have second: "send_message env1 ''k9'' ''R1'' ''u9'' ''hi'' st_R1
       = st_R1\<lparr> outbox := outbox st_R1 @ [(To_socket ''k9'', Error NotMember)] \<rparr>"
    by blast
  from absent first second show ?thesis
    by (simp add: st_R1_room)
qed

text \<open>
  Claim C6 (not met by the earlier version): every \<^verbatim>\<open>room_expiration\<close> value is a
  non-negative number of minutes, and 5 right after a reset. The later version emits
  \<open>minutesLeft\<close>, for which the lemmas above give the claim. The earlier
  version's \<^verbatim>\<open>join_room\<close> subtracts \<^verbatim>\<open>Date.now()\<close> from the timer's \<^verbatim>\<open>_idleStart\<close>,
  which counts from the start of the event loop, and does not clamp: with the loop 5000
  ms old and the clock at 1700000000000 ms it emits -28333328 right after the reset,
  and so does \<^verbatim>\<open>send_message\<close>.
\<close>

theorem join_room_v1_negative_expiration:
  "map_sum id outbox (join_room_v1 env1 ''k1'' ''R1'' ''u1'' st_R1_v1)
     = Inr [(To_channel ''u1'', Room_created ''R1'' 2), (To_channel ''u2'', Room_created ''R1'' 2),
        (To_socket ''k1'', Room_joined ''R1'' 2),
        (To_socket ''k1'', Room_expiration (- 28333328)),
        (To_socket ''k1'', User_rooms [(''R1'', 2)])]
   \<and> outbox (send_message_v1 env1 ''k1'' ''R1'' ''u1'' ''hi'' st_R1_v1)
     = [(To_channel ''u1'', Room_created ''R1'' 2), (To_channel ''u2'', Room_created ''R1'' 2),
        (To_channel ''R1'', New_message_v1 ''R1'' ''u1'' ''hi''),
        (To_channel ''R1'', Room_expiration (- 28333328))]"
  by (simp add: st_R1_v1_def run_defs_v1)




text \<open>
  Claim C8 as stated fails on the later version. Sockets \<^verbatim>\<open>k1\<close> and \<^verbatim>\<open>k2\<close> are
  connected and only \<^verbatim>\<open>k1\<close> has joined the channel of \<^verbatim>\<open>R1\<close>. When the room's timeout
  fires, \<^verbatim>\<open>room_deleted\<close> is addressed to the channel \<^verbatim>\<open>R1\<close>, which \<^verbatim>\<open>k2\<close> is not in.
\<close>

theorem deleteRoom_not_broadcast:
  "join_room env1 ''k1'' ''R1'' ''u1'' (connection ''k2'' (connection ''k1'' st_R1))
     = Inr st_R1_joined
   \<and> sockets st_R1_joined = [''k1'', ''k2'']
   \<and> timers st_R1_joined 1
       = Some \<lparr> callback_roomId = ''R1'', idleStart = 5000, idleTimeout = 300000 \<rparr>
   \<and> rooms (fire_timer 305000 1 st_R1_joined) ''R1'' = None
   \<and> outbox (fire_timer 305000 1 st_R1_joined)
       = outbox st_R1_joined @ [(To_channel ''R1'', Room_deleted ''R1'')]
   \<and> recipients (fire_timer 305000 1 st_R1_joined) (To_channel ''R1'') = [''k1'']"
  by (simp add: st_R1_joined_def st_R1_def run_defs)

text \<open>
  Claim C8, amended. Deleting a live room emits one \<^verbatim>\<open>room_deleted\<close> event carrying
  the room id, by \<^verbatim>\<open>deleteRoom\<close> itself and by a due timeout, which is its only
  caller. In the earlier version the event goes to all connected sockets
  (\<^verbatim>\<open>io.emit\<close>). In the later version it goes to the room's socket.io channel
  (\<^verbatim>\<open>io.to(roomId)\<close>): the connected sockets that joined that channel.
\<close>

theorem room_deleted_targets:
  "(\<forall>room. rooms sv roomId = Some room \<longrightarrow>
      rooms (deleteRoom_v1 roomId sv) roomId = None
      \<and> outbox (deleteRoom_v1 roomId sv) = outbox sv @ [(To_all, Room_deleted roomId)])
   \<and> (\<forall>room. rooms s roomId = Some room \<longrightarrow>
      rooms (deleteRoom roomId s) roomId = None
      \<and> outbox (deleteRoom roomId s) = outbox s @ [(To_channel roomId, Room_deleted roomId)])
   \<and> (\<forall>t room. timers sv h = Some t \<and> idleStart t + idleTimeout t \<le> lnow
         \<and> rooms sv (callback_roomId t) = Some room \<longrightarrow>
      outbox (fire_timer_v1 lnow h sv)
        = outbox sv @ [(To_all, Room_deleted (callback_roomId t))])
   \<and> (\<forall>t room. timers s h = Some t \<and> idleStart t + idleTimeout t \<le> lnow
         \<and> rooms s (callback_roomId t) = Some room \<longrightarrow>
      outbox (fire_timer lnow h s)
        = outbox s @ [(To_channel (callback_roomId t), Room_deleted (callback_roomId t))])
   \<and> recipients s' To_all = sockets s'
   \<and> recipients s' (To_channel roomId)
       = filter (\<lambda>sock. roomId = sock \<or> roomId \<in> set (joined s' sock)) (sockets s')"
proof -
  have v1: "rooms (deleteRoom_v1 r x) r = None
      \<and> outbox (deleteRoom_v1 r x) = outbox x @ [(To_all, Room_deleted r)]"
    if "rooms x r = Some room" for x r room
    using that
    by (simp add: deleteRoom_v1_def Let_def clearTimeout_def foldl_remove_userRoom_fields
        split: option.splits)
  have v2: "rooms (deleteRoom r x) r = None
      \<and> outbox (deleteRoom r x) = outbox x @ [(To_channel r, Room_deleted r)]"
    if "rooms x r = Some room" for x r room
    using that
    by (simp add: deleteRoom_def Let_def clearTimeout_def foldl_remove_userRoom_fields)
  have t1: "outbox (fire_timer_v1 lnow h sv)
        = outbox sv @ [(To_all, Room_deleted (callback_roomId t))]"
    if "timers sv h = Some t" "idleStart t + idleTimeout t \<le> lnow"
       "rooms sv (callback_roomId t) = Some room" for t room
    using that v1 [of "clearTimeout h sv" "callback_roomId t" room]
    by (simp add: fire_timer_v1_def clearTimeout_def)
  have t2: "outbox (fire_timer lnow h s)
        = outbox s @ [(To_channel (callback_roomId t), Room_deleted (callback_roomId t))]"
    if "timers s h = Some t" "idleStart t + idleTimeout t \<le> lnow"
       "rooms s (callback_roomId t) = Some room" for t room
    using that v2 [of "clearTimeout h s" "callback_roomId t" room]
    by (simp add: fire_timer_def clearTimeout_def)
  show ?thesis
    using v1 v2 t1 t2 by (auto simp: recipients_def)
qed

text \<open>C8 on the two versions' \<^verbatim>\<open>R1\<close>, deleted directly and by its timeout (handle 0).\<close>

theorem room_deleted_targets_witness:
  "rooms st_R1_v1 ''R1'' = Some \<lparr> id_r1 = ''R1'', users_v1 = [''u1'', ''u2''], messages_v1 = [],
       createdAt_v1 = 1700000000000, timer_v1 = Some 0 \<rparr>
   \<and> outbox (deleteRoom_v1 ''R1'' st_R1_v1) = outbox st_R1_v1 @ [(To_all, Room_deleted ''R1'')]
   \<and> map_option users (rooms st_R1 ''R1'') = Some [''u1'', ''u2'']
   \<and> outbox (deleteRoom ''R1'' st_R1)
       = outbox st_R1 @ [(To_channel ''R1'', Room_deleted ''R1'')]
   \<and> timers st_R1_v1 0 = Some \<lparr> callback_roomId = ''R1'', idleStart = 5000, idleTimeout = 300000 \<rparr>
   \<and> outbox (fire_timer_v1 305000 0 st_R1_v1)
       = outbox st_R1_v1 @ [(To_all, Room_deleted ''R1'')]
   \<and> timers st_R1 0 = Some \<lparr> callback_roomId = ''R1'', idleStart = 5000, idleTimeout = 300000 \<rparr>
   \<and> outbox (fire_timer 305000 0 st_R1)
       = outbox st_R1 @ [(To_channel ''R1'', Room_deleted ''R1'')]"
proof -
  have room1: "rooms st_R1_v1 ''R1'' = Some \<lparr> id_r1 = ''R1'', users_v1 = [''u1'', ''u2''],
       messages_v1 = [], createdAt_v1 = 1700000000000, timer_v1 = Some 0 \<rparr>"
    by (simp add: st_R1_v1_def run_defs_v1)
  have timer1: "timers st_R1_v1 0
      = Some \<lparr> callback_roomId = ''R1'', idleStart = 5000, idleTimeout = 300000 \<rparr>"
    by (simp add: st_R1_v1_def run_defs_v1)
  have timer2: "timers st_R1 0
      = Some \<lparr> callback_roomId = ''R1'', idleStart = 5000, idleTimeout = 300000 \<rparr>"
    by (simp add: st_R1_def run_defs)
  note inst = room_deleted_targets [where sv = st_R1_v1 and s = st_R1 and roomId = "''R1''"
      and h = 0 and lnow = 305000]
  from inst room1 have a: "outbox (deleteRoom_v1 ''R1'' st_R1_v1)
      = outbox st_R1_v1 @ [(To_all, Room_deleted ''R1'')]"
    by blast
  from inst st_R1_room have b: "outbox (deleteRoom ''R1'' st_R1)
       = outbox st_R1 @ [(To_channel ''R1'', Room_deleted ''R1'')]"
    by blast
  from inst timer1 room1 have c: "outbox (fire_timer_v1 305000 0 st_R1_v1)
       = outbox st_R1_v1 @ [(To_all, Room_deleted ''R1'')]"
    by force
  from inst timer2 st_R1_room have d: "outbox (fire_timer 305000 0 st_R1)
       = outbox st_R1 @ [(To_channel ''R1'', Room_deleted ''R1'')]"
    by force
  from room1 timer1 timer2 a b c d show ?thesis
    by (simp add: st_R1_room)
qed

text \<open>
  Claim C9 as stated fails for the two queries: on the unknown id \<^verbatim>\<open>R0\<close>,
  \<^verbatim>\<open>get_messages\<close> and \<^verbatim>\<open>get_room_expiration\<close> return the state as it was, with no
  error event for the asking socket.
\<close>

theorem unknown_room_queries_silent:
  "rooms st_R1 ''R0'' = None
   \<and> get_messages ''k1'' ''R0'' st_R1 = st_R1
   \<and> get_room_expiration env1 ''k1'' ''R0'' st_R1 = st_R1
   \<and> (To_socket ''k1'', Error NotFound) \<notin> set (outbox (get_messages ''k1'' ''R0'' st_R1))
   \<and> (To_socket ''k1'', Error NotFound)
        \<notin> set (outbox (get_room_expiration env1 ''k1'' ''R0'' st_R1))"
  by (simp add: st_R1_def run_defs)

text \<open>
  Claim C9, amended. On an id that is not live, \<^verbatim>\<open>join_room\<close> and \<^verbatim>\<open>send_message\<close>
  emit the "not found" error to the calling socket, which is its only recipient, and
  change nothing else; \<^verbatim>\<open>get_messages\<close> and \<^verbatim>\<open>get_room_expiration\<close> emit nothing and
  change nothing.
\<close>

theorem unknown_room_handling:
  "rooms s roomId = None \<longrightarrow>
      join_room e sock roomId userId s
        = Inr (s\<lparr> outbox := outbox s @ [(To_socket sock, Error NotFound)] \<rparr>)
    \<and> send_message e sock roomId userId message s
        = s\<lparr> outbox := outbox s @ [(To_socket sock, Error NotFound)] \<rparr>
    \<and> recipients s' (To_socket sock) = [sock]
    \<and> get_messages sock roomId s = s
    \<and> get_room_expiration e sock roomId s = s"
  by (simp add: join_room_def send_message_def get_messages_def get_room_expiration_def
      emit_def recipients_def)

text \<open>C9 on the run \<open>st_R1\<close>, where \<^verbatim>\<open>R0\<close> is not live.\<close>

theorem unknown_room_handling_witness:
  "rooms st_R1 ''R0'' = None
   \<and> join_room env1 ''k1'' ''R0'' ''u1'' st_R1
       = Inr (st_R1\<lparr> outbox := outbox st_R1 @ [(To_socket ''k1'', Error NotFound)] \<rparr>)
   \<and> send_message env1 ''k1'' ''R0'' ''u1'' ''hi'' st_R1
       = st_R1\<lparr> outbox := outbox st_R1 @ [(To_socket ''k1'', Error NotFound)] \<rparr>
   \<and> recipients st_R1 (To_socket ''k1'') = [''k1'']
   \<and> get_messages ''k1'' ''R0'' st_R1 = st_R1
   \<and> get_room_expiration env1 ''k1'' ''R0'' st_R1 = st_R1"
  using unknown_room_handling [where s = st_R1 and roomId = "''R0''" and e = env1
      and sock = "''k1''" and userId = "''u1''" and message = "''hi''" and s' = st_R1]
    st_R1_no_R0
  by blast

text \<open>
  Claim C10 (not met by the code): any two stored messages have different ids. Two
  \<^verbatim>\<open>send_message\<close> calls that read the same millisecond from \<^verbatim>\<open>Date.now()\<close> and draw
  the same random suffix store two messages with the same id: nothing in
  \<^verbatim>\<open>send_message\<close> compares a new id with the stored ones.
\<close>

theorem send_message_duplicate_id:
  "map_option (map id_m \<circ> messages)
     (rooms (send_message env1 ''k2'' ''R1'' ''u2'' ''b''
              (send_message env1 ''k1'' ''R1'' ''u1'' ''a'' st_R1)) ''R1'')
   = Some [''1700000000000-4fzyo82mv'', ''1700000000000-4fzyo82mv'']"
  by (simp add: st_R1_def run_defs)

end
